theory Spec2Isabelle
  imports Main "HOL-Library.Sublist"
begin

section \<open>The grammar entities read by the typer\<close>

text \<open>
  Modelled from the spec: \<open>src/typer.ts\<close> imports the types \<open>Combinator\<close>, \<open>Component\<close>,
  \<open>Entity\<close>, \<open>Multiplier\<close>, \<open>MultiplierType\<close>, \<open>EntityType\<close> from \<open>./parser\<close>, whose
  declarations are not among the sources. The datatypes below follow section 3 of the
  specification and the fields the typer reads (\<open>entity\<close>, \<open>component\<close>, \<open>combinator\<close>,
  \<open>value\<close>, \<open>entities\<close>, \<open>multiplier\<close>, \<open>sign\<close>, \<open>min\<close>, \<open>max\<close>).

  A multiplier object is a sign, and for the sign \<open>QurlyBracet\<close> the two numbers
  \<open>min\<close> and \<open>max\<close>. A component carries \<open>multiplier: MultiplierType | null\<close>, here
  \<open>MultiplierType option\<close>.
\<close>

datatype Combinator = Juxtaposition | DoubleAmpersand | DoubleBar | SingleBar

datatype MultiplierType =
    Asterisk
  | PlusSign
  | QuestionMark
  | HashMark
  | ExclamationPoint
  | QurlyBracet (min: int) (max: int)

text \<open>
  Entities are JavaScript objects, and the typer looks an entity up in its array with
  \<open>entities.indexOf(entity)\<close>, which compares object references (\<open>===\<close>), not contents.
  Every entity therefore carries the reference of its object as its first field \<open>ref\<close>:
  two entries of an array are the same object exactly when their references are equal.
  The two tags \<open>entity\<close> and \<open>component\<close> of the source are flattened into one
  constructor per shape.
\<close>

datatype EntityType =
    Keyword (ref: nat) string "MultiplierType option"
  | DataType (ref: nat) string "MultiplierType option"
  | Group (ref: nat) "EntityType list" "MultiplierType option"
  | CombinatorEntity (ref: nat) Combinator
  | FunctionEntity (ref: nat)

section \<open>Type descriptors\<close>

text \<open>
  \<open>IBasic\<close> is \<open>{type: Type.String | Type.Number | Type.Length}\<close>; \<open>TypeType\<close> with its
  default argument is \<open>IBasic | IStringLiteral | INumericLiteral | IDataType\<close>. The
  literal of a numeric literal is a JavaScript number, the type parameter \<open>'n\<close>.
\<close>

datatype IBasic = Basic_String | Basic_Number | Basic_Length

datatype 'n TypeType =
    Type_String
  | Type_Number
  | Type_Length
  | Type_StringLiteral string
  | Type_NumericLiteral 'n
  | Type_DataType string

fun basic :: "IBasic \<Rightarrow> 'n TypeType" where
  "basic Basic_String = Type_String"
| "basic Basic_Number = Type_Number"
| "basic Basic_Length = Type_Length"

section \<open>The JavaScript built-ins the typer calls\<close>

text \<open>
  The typer calls \<open>Number(text)\<close>, \<open>String(number)\<close> and compares numbers with \<open>===\<close>.
  These are functions of the language, on IEEE doubles; the typer is modelled over any
  three such functions, collected in a record, so that every general theorem holds for
  the real ones.
\<close>

record 'n js_number =
  js_Number :: "string \<Rightarrow> 'n"
  js_String :: "'n \<Rightarrow> string"
  js_strict_eq :: "'n \<Rightarrow> 'n \<Rightarrow> bool"

subsection \<open>A model of the built-ins on keywords\<close>

text \<open>
  For closed examples the three built-ins are needed at concrete strings. The model below
  gives them on a fragment where no rounding happens:
  \<^item> \<open>Number(s)\<close> for \<open>s\<close> a non-empty string of decimal digits, with an optional sign, is
    that integer (exact below \<open>2^53\<close>); for \<open>Infinity\<close>, \<open>+Infinity\<close>, \<open>-Infinity\<close> it is
    the infinity; for any other string without white space whose first character after
    the optional sign is neither a digit nor a dot it is \<open>NaN\<close> (no numeric literal
    starts so);
  \<^item> \<open>String(n)\<close> of an integer of magnitude below \<open>10^21\<close> is its decimal digits, with
    \<open>-\<close> when negative; \<open>String(NaN)\<close> is \<open>NaN\<close>, and the infinities are \<open>Infinity\<close> and
    \<open>-Infinity\<close>;
  \<^item> \<open>x === y\<close> on numbers is equality of the values, except that \<open>NaN === NaN\<close> is
    false.
  The model is used only at strings of this fragment: the empty string, strings with
  white space, and strings that start like a number but have a dot, an exponent or a radix
  prefix are outside it.
\<close>

datatype jsnum = NaN | Infinity | NegInfinity | Finite int

definition is_digit :: "char \<Rightarrow> bool" where
  "is_digit c = (48 \<le> (of_char c :: nat) \<and> (of_char c :: nat) \<le> 57)"

fun digits_value :: "nat \<Rightarrow> string \<Rightarrow> nat" where
  "digits_value acc [] = acc"
| "digits_value acc (c # cs) = digits_value (10 * acc + ((of_char c :: nat) - 48)) cs"

definition all_digits :: "string \<Rightarrow> bool" where
  "all_digits s = (s \<noteq> [] \<and> list_all is_digit s)"

fun Number_model :: "string \<Rightarrow> jsnum" where
  "Number_model s =
     (if s = ''Infinity'' \<or> s = ''+Infinity'' then Infinity
      else if s = ''-Infinity'' then NegInfinity
      else (case s of
              [] \<Rightarrow> NaN
            | c # cs \<Rightarrow>
                if c = CHR ''-'' then
                  (if all_digits cs then Finite (- int (digits_value 0 cs)) else NaN)
                else if c = CHR ''+'' then
                  (if all_digits cs then Finite (int (digits_value 0 cs)) else NaN)
                else if all_digits s then Finite (int (digits_value 0 s))
                else NaN))"

fun string_of_nat :: "nat \<Rightarrow> string" where
  "string_of_nat n =
     (if n < 10 then [char_of (48 + n)]
      else string_of_nat (n div 10) @ [char_of (48 + n mod 10)])"

fun String_model :: "jsnum \<Rightarrow> string" where
  "String_model NaN = ''NaN''"
| "String_model Infinity = ''Infinity''"
| "String_model NegInfinity = ''-Infinity''"
| "String_model (Finite i) =
     (if i < 0 then CHR ''-'' # string_of_nat (nat (- i)) else string_of_nat (nat i))"

fun strict_eq_model :: "jsnum \<Rightarrow> jsnum \<Rightarrow> bool" where
  "strict_eq_model NaN y = False"
| "strict_eq_model x NaN = False"
| "strict_eq_model x y = (x = y)"

definition js_model :: "jsnum js_number" where
  "js_model = \<lparr>js_Number = Number_model, js_String = String_model,
                js_strict_eq = strict_eq_model\<rparr>"

subsection \<open>Strings and objects\<close>

text \<open>\<open>s.slice(1, -1)\<close>: the string without its first and its last character, empty
  when the string has fewer than two characters.\<close>

definition slice_1_minus_1 :: "string \<Rightarrow> string" where
  "slice_1_minus_1 s = butlast (tl s)"

text \<open>\<open>s.indexOf(c)\<close> for a one-character search string: the first position of the
  character, or \<open>-1\<close>.\<close>

fun string_indexOf :: "string \<Rightarrow> char \<Rightarrow> int" where
  "string_indexOf [] c = -1"
| "string_indexOf (x # xs) c =
     (if x = c then 0
      else (let i = string_indexOf xs c in if i < 0 then -1 else i + 1))"

text \<open>
  \<open>name in object\<close> is true for the object's own properties and for the properties it
  inherits. The catalog is a plain object (the \<open>{}\<close> given to \<open>reduce\<close>), so it inherits
  the properties of \<open>Object.prototype\<close>, listed here as Node.js and the browsers have
  them. None of them is an object with a field \<open>type\<close>.
\<close>

definition Object_prototype_keys :: "string list" where
  "Object_prototype_keys =
     [''constructor'', ''hasOwnProperty'', ''isPrototypeOf'', ''propertyIsEnumerable'',
      ''toLocaleString'', ''toString'', ''valueOf'', ''__proto__'',
      ''__defineGetter__'', ''__defineSetter__'', ''__lookupGetter__'',
      ''__lookupSetter__'']"

definition js_in :: "string \<Rightarrow> (string \<rightharpoonup> 'v) \<Rightarrow> bool" where
  "js_in name obj =
     (case obj name of Some v \<Rightarrow> True | None \<Rightarrow> name \<in> set Object_prototype_keys)"

section \<open>The catalog of basic data types\<close>

text \<open>
  \<open>basicDataTypes\<close> is built by a \<open>reduce\<close> over \<open>[...Object.keys(cssTypes), 'hex-color']\<close>.
  The two JSON tables are not part of the repository: the list of keys of the types table
  and the test \<open>name in syntaxes\<close> are parameters. An assignment \<open>dataTypes[name] = v\<close>
  is read as creating the own property \<open>name\<close>.
\<close>

definition basicDataTypes_step ::
  "(string \<Rightarrow> bool) \<Rightarrow> (string \<rightharpoonup> IBasic) \<Rightarrow> string \<Rightarrow> (string \<rightharpoonup> IBasic)" where
  "basicDataTypes_step in_syntaxes dataTypes name =
     (if name = ''number'' \<or> name = ''integer'' then dataTypes(name \<mapsto> Basic_Number)
      else if name = ''length'' then dataTypes(name \<mapsto> Basic_Length)
      else if \<not> in_syntaxes name then dataTypes(name \<mapsto> Basic_String)
      else dataTypes)"

definition basicDataTypes :: "string list \<Rightarrow> (string \<Rightarrow> bool) \<Rightarrow> (string \<rightharpoonup> IBasic)" where
  "basicDataTypes cssTypes_keys in_syntaxes =
     foldl (basicDataTypes_step in_syntaxes) Map.empty (cssTypes_keys @ [''hex-color''])"

text \<open>
  For closed examples: the test \<open>name in syntaxes\<close> of a table that defines the listed
  names, and the keys of a small types table.
\<close>

definition defined_in :: "string list \<Rightarrow> string \<Rightarrow> bool" where
  "defined_in names name = (name \<in> set names)"

definition example_cssTypes_keys :: "string list" where
  "example_cssTypes_keys = [''number'', ''integer'', ''length'', ''string'', ''color'']"

section \<open>The accumulator of one call of typing\<close>

record 'n accumulator =
  types :: "'n TypeType list"
  hasLength :: bool
  hasString :: bool
  hasNumber :: bool

definition initial :: "'n accumulator" where
  "initial = \<lparr>types = [], hasLength = False, hasString = False, hasNumber = False\<rparr>"

definition addLength :: "'n accumulator \<Rightarrow> 'n accumulator" where
  "addLength st =
     (if \<not> hasLength st then st\<lparr>types := types st @ [Type_Length], hasLength := True\<rparr>
      else st)"

definition addString :: "'n accumulator \<Rightarrow> 'n accumulator" where
  "addString st =
     (if \<not> hasString st then st\<lparr>types := types st @ [Type_String], hasString := True\<rparr>
      else st)"

definition addNumber :: "'n accumulator \<Rightarrow> 'n accumulator" where
  "addNumber st =
     (if \<not> hasNumber st then st\<lparr>types := types st @ [Type_Number], hasNumber := True\<rparr>
      else st)"

fun isStringLiteral :: "string \<Rightarrow> 'n TypeType \<Rightarrow> bool" where
  "isStringLiteral literal (Type_StringLiteral l) = (l = literal)"
| "isStringLiteral literal _ = False"

fun isNumericLiteral :: "'n js_number \<Rightarrow> 'n \<Rightarrow> 'n TypeType \<Rightarrow> bool" where
  "isNumericLiteral J literal (Type_NumericLiteral l) = js_strict_eq J l literal"
| "isNumericLiteral J literal _ = False"

fun isDataType :: "string \<Rightarrow> 'n TypeType \<Rightarrow> bool" where
  "isDataType name (Type_DataType n) = (n = name)"
| "isDataType name _ = False"

definition addStringLiteral :: "string \<Rightarrow> 'n accumulator \<Rightarrow> 'n accumulator" where
  "addStringLiteral literal st =
     (if list_all (\<lambda>t. \<not> isStringLiteral literal t) (types st)
      then st\<lparr>types := types st @ [Type_StringLiteral literal]\<rparr>
      else st)"

definition addNumericLiteral :: "'n js_number \<Rightarrow> 'n \<Rightarrow> 'n accumulator \<Rightarrow> 'n accumulator" where
  "addNumericLiteral J literal st =
     (if list_all (\<lambda>t. \<not> isNumericLiteral J literal t) (types st)
      then st\<lparr>types := types st @ [Type_NumericLiteral literal]\<rparr>
      else st)"

definition addDataType :: "string \<Rightarrow> 'n accumulator \<Rightarrow> 'n accumulator" where
  "addDataType name st =
     (if list_all (\<lambda>t. \<not> isDataType name t) (types st)
      then st\<lparr>types := types st @ [Type_DataType name]\<rparr>
      else st)"

fun add :: "'n js_number \<Rightarrow> 'n accumulator \<Rightarrow> 'n TypeType \<Rightarrow> 'n accumulator" where
  "add J st Type_Length = addLength st"
| "add J st Type_String = addString st"
| "add J st Type_Number = addNumber st"
| "add J st (Type_StringLiteral literal) = addStringLiteral literal st"
| "add J st (Type_NumericLiteral literal) = addNumericLiteral J literal st"
| "add J st (Type_DataType name) = addDataType name st"

section \<open>Neighbours in the sequence\<close>

text \<open>\<open>entities.indexOf(x)\<close>: the first index whose entry is the object \<open>x\<close>, or \<open>-1\<close>.\<close>

fun indexOf :: "EntityType list \<Rightarrow> EntityType \<Rightarrow> int" where
  "indexOf [] x = -1"
| "indexOf (y # ys) x =
     (if ref y = ref x then 0
      else (let i = indexOf ys x in if i < 0 then -1 else i + 1))"

text \<open>\<open>entities[i]\<close>: \<open>undefined\<close> (here \<open>None\<close>) outside the array, also at \<open>-1\<close>.\<close>

definition at_index :: "'a list \<Rightarrow> int \<Rightarrow> 'a option" where
  "at_index xs i = (if 0 \<le> i \<and> i < int (length xs) then Some (xs ! nat i) else None)"

definition previousEntity :: "EntityType list \<Rightarrow> EntityType \<Rightarrow> EntityType option" where
  "previousEntity entities currentEntity = at_index entities (indexOf entities currentEntity - 1)"

definition nextEntity :: "EntityType list \<Rightarrow> EntityType \<Rightarrow> EntityType option" where
  "nextEntity entities currentEntity = at_index entities (indexOf entities currentEntity + 1)"

fun isFunction :: "EntityType \<Rightarrow> bool" where
  "isFunction (FunctionEntity r) = True"
| "isFunction _ = False"

fun isComponent :: "EntityType \<Rightarrow> bool" where
  "isComponent (Keyword r v m) = True"
| "isComponent (DataType r v m) = True"
| "isComponent (Group r es m) = True"
| "isComponent _ = False"

fun isCombinator :: "EntityType \<Rightarrow> bool" where
  "isCombinator (CombinatorEntity r c) = True"
| "isCombinator _ = False"

fun isQurlyBracetMultiplier :: "MultiplierType \<Rightarrow> bool" where
  "isQurlyBracetMultiplier (QurlyBracet mn mx) = True"
| "isQurlyBracetMultiplier _ = False"

fun isMandatoryCombinator :: "EntityType \<Rightarrow> bool" where
  "isMandatoryCombinator (CombinatorEntity r combinator) =
     (combinator = DoubleAmpersand \<or> combinator = Juxtaposition)"
| "isMandatoryCombinator _ = False"

fun multiplier :: "EntityType \<Rightarrow> MultiplierType option" where
  "multiplier (Keyword r v m) = m"
| "multiplier (DataType r v m) = m"
| "multiplier (Group r es m) = m"
| "multiplier _ = None"

text \<open>\<open>component.multiplier && (...)\<close>: false without a multiplier.\<close>

definition isOptionalComponent :: "EntityType \<Rightarrow> bool" where
  "isOptionalComponent component =
     (case multiplier component of
        None \<Rightarrow> False
      | Some m \<Rightarrow>
          (isQurlyBracetMultiplier m \<and> min m > 0) \<or> m = Asterisk \<or> m = QuestionMark)"

definition previousComponentWasOptional :: "EntityType list \<Rightarrow> EntityType \<Rightarrow> bool" where
  "previousComponentWasOptional entities combinator =
     (case previousEntity entities combinator of
        None \<Rightarrow> False
      | Some component \<Rightarrow> isComponent component \<and> isOptionalComponent component)"

definition nextComponentIsOptional :: "EntityType list \<Rightarrow> EntityType \<Rightarrow> bool" where
  "nextComponentIsOptional entities combinator =
     (case nextEntity entities combinator of
        None \<Rightarrow> False
      | Some component \<Rightarrow> isComponent component \<and> isOptionalComponent component)"

text \<open>A neighbour that exists, is a combinator and is mandatory.\<close>

fun mandatoryCombinatorAt :: "EntityType option \<Rightarrow> EntityType option" where
  "mandatoryCombinatorAt None = None"
| "mandatoryCombinatorAt (Some e) =
     (if isCombinator e \<and> isMandatoryCombinator e then Some e else None)"

definition shouldIncludeComponent :: "EntityType list \<Rightarrow> EntityType \<Rightarrow> bool" where
  "shouldIncludeComponent entities entity =
     (case mandatoryCombinatorAt (nextEntity entities entity) of
        Some nextCombinator \<Rightarrow> nextComponentIsOptional entities nextCombinator
      | None \<Rightarrow>
          (case mandatoryCombinatorAt (previousEntity entities entity) of
             Some previousCombinator \<Rightarrow> previousComponentWasOptional entities previousCombinator
           | None \<Rightarrow> True))"

section \<open>typing\<close>

text \<open>The test on the multiplier of a group, \<open>false\<close> without a multiplier.\<close>

definition groupIsRepeated :: "MultiplierType option \<Rightarrow> bool" where
  "groupIsRepeated mo =
     (case mo of
        None \<Rightarrow> False
      | Some m \<Rightarrow>
          (isQurlyBracetMultiplier m \<and> (min m > 1 \<or> max m = 1))
          \<or> m = Asterisk \<or> m = PlusSign \<or> m = HashMark \<or> m = ExclamationPoint)"

text \<open>
  The branch of a data type component. \<open>basicDataTypes[value]\<close> of an inherited property
  is a function or \<open>Object.prototype\<close>: its \<open>type\<close> is \<open>undefined\<close>, no case of the
  \<open>switch\<close> in \<open>add\<close> matches, and nothing is added.
\<close>

definition typeDataType ::
  "'n js_number \<Rightarrow> (string \<rightharpoonup> IBasic) \<Rightarrow> string \<Rightarrow> 'n accumulator \<Rightarrow> 'n accumulator" where
  "typeDataType J catalog text st =
     (let v = slice_1_minus_1 text in
      if string_indexOf v (CHR 0x27) = 0 then addString st
      else if js_in v catalog then
        (case catalog v of Some b \<Rightarrow> add J st (basic b) | None \<Rightarrow> st)
      else addDataType v st)"

definition typeKeyword :: "'n js_number \<Rightarrow> string \<Rightarrow> 'n accumulator \<Rightarrow> 'n accumulator" where
  "typeKeyword J text st =
     (if js_String J (js_Number J text) = text then addNumericLiteral J (js_Number J text) st
      else addStringLiteral text st)"

lemma size_list_member_less: "x \<in> set xs \<Longrightarrow> f x < size_list f xs"
  by (induction xs) auto

text \<open>
  \<open>typing\<close> is the loop over \<open>entities\<close>; \<open>typing_step\<close> is its body, with the array of
  the current call as context (the helper functions close over it). The recursive call
  is on the nested sequence of an included group.
\<close>

function
  typing :: "'n js_number \<Rightarrow> (string \<rightharpoonup> IBasic) \<Rightarrow> EntityType list \<Rightarrow> 'n TypeType list"
and
  typing_step :: "'n js_number \<Rightarrow> (string \<rightharpoonup> IBasic) \<Rightarrow> EntityType list
    \<Rightarrow> 'n accumulator \<Rightarrow> EntityType \<Rightarrow> 'n accumulator"
where
  "typing J catalog entities =
     types (foldl (\<lambda>st entity. typing_step J catalog entities st entity) initial entities)"
| "typing_step J catalog entities st (Keyword r text m) =
     (if shouldIncludeComponent entities (Keyword r text m) then typeKeyword J text st
      else st)"
| "typing_step J catalog entities st (DataType r text m) =
     (if shouldIncludeComponent entities (DataType r text m)
      then typeDataType J catalog text st
      else st)"
| "typing_step J catalog entities st (Group r nested m) =
     (if shouldIncludeComponent entities (Group r nested m)
      then foldl (add J) (if groupIsRepeated m then addString st else st)
             (typing J catalog nested)
      else st)"
| "typing_step J catalog entities st (CombinatorEntity r combinator) =
     (if combinator = DoubleBar \<or> isMandatoryCombinator (CombinatorEntity r combinator)
      then addString st
      else st)"
| "typing_step J catalog entities st (FunctionEntity r) = addString st"
  by pat_completeness auto

text \<open>The recursion descends from a sequence to one of its entities, and from a group to
  its nested sequence, which is smaller than the group.\<close>

termination
  by (relation "measure (\<lambda>x. case x of
        Inl (J, catalog, entities) \<Rightarrow> size_list size entities
      | Inr (J, catalog, entities, st, entity) \<Rightarrow> size entity)")
     (auto simp: size_list_member_less)

declare typing.simps [simp del]


section \<open>The rules as the specification words them\<close>






text \<open>The multiplier of a group that adds the generic string.\<close>

fun spec_group_adds_string :: "MultiplierType option \<Rightarrow> bool" where
  "spec_group_adds_string (Some (QurlyBracet mn mx)) = (mn > 1 \<or> mx = 1)"
| "spec_group_adds_string (Some Asterisk) = True"
| "spec_group_adds_string (Some PlusSign) = True"
| "spec_group_adds_string (Some HashMark) = True"
| "spec_group_adds_string (Some ExclamationPoint) = True"
| "spec_group_adds_string (Some QuestionMark) = False"
| "spec_group_adds_string None = False"

text \<open>
  Deduplication: a descriptor is present in a sequence when an entry has the same
  variant and the same discriminating field, numbers being compared with \<open>===\<close> as
  the source does; a descriptor that is present is not added, a new one goes last.
\<close>

fun same :: "'n js_number \<Rightarrow> 'n TypeType \<Rightarrow> 'n TypeType \<Rightarrow> bool" where
  "same J Type_String Type_String = True"
| "same J Type_Number Type_Number = True"
| "same J Type_Length Type_Length = True"
| "same J (Type_StringLiteral a) (Type_StringLiteral b) = (a = b)"
| "same J (Type_NumericLiteral a) (Type_NumericLiteral b) = js_strict_eq J a b"
| "same J (Type_DataType a) (Type_DataType b) = (a = b)"
| "same J _ _ = False"

definition insert_new :: "'n js_number \<Rightarrow> 'n TypeType list \<Rightarrow> 'n TypeType \<Rightarrow> 'n TypeType list" where
  "insert_new J ds d = (if list_ex (\<lambda>t. same J t d) ds then ds else ds @ [d])"

definition first_occurrences :: "'n js_number \<Rightarrow> 'n TypeType list \<Rightarrow> 'n TypeType list" where
  "first_occurrences J ds = foldl (insert_new J) [] ds"

text \<open>
  The descriptors one entity of a sequence triggers, in the order it triggers them: none
  for a component the filter leaves out, the literal of a keyword, the descriptor of a
  data type, for a group the generic string of its multiplier and then the descriptors of
  its nested sequence, the generic string for a combinator other than \<open>SingleBar\<close> and for
  a function.
\<close>

fun triggered ::
  "'n js_number \<Rightarrow> (string \<rightharpoonup> IBasic) \<Rightarrow> EntityType list \<Rightarrow> EntityType \<Rightarrow> 'n TypeType list" where
  "triggered J catalog entities (Keyword r text m) =
     (if shouldIncludeComponent entities (Keyword r text m)
      then [if js_String J (js_Number J text) = text
            then Type_NumericLiteral (js_Number J text)
            else Type_StringLiteral text]
      else [])"
| "triggered J catalog entities (DataType r text m) =
     (if shouldIncludeComponent entities (DataType r text m)
      then (let v = slice_1_minus_1 text in
            if string_indexOf v (CHR 0x27) = 0 then [Type_String]
            else if js_in v catalog then
              (case catalog v of Some b \<Rightarrow> [basic b] | None \<Rightarrow> [])
            else [Type_DataType v])
      else [])"
| "triggered J catalog entities (Group r nested m) =
     (if shouldIncludeComponent entities (Group r nested m)
      then (if spec_group_adds_string m then [Type_String] else []) @ typing J catalog nested
      else [])"
| "triggered J catalog entities (CombinatorEntity r combinator) =
     (if combinator = SingleBar then [] else [Type_String])"
| "triggered J catalog entities (FunctionEntity r) = [Type_String]"

section \<open>The accumulator's flags\<close>

text \<open>Each flag of the accumulator says whether its descriptor is in the list.\<close>

definition consistent :: "'n accumulator \<Rightarrow> bool" where
  "consistent st =
     (hasString st = (Type_String \<in> set (types st))
      \<and> hasNumber st = (Type_Number \<in> set (types st))
      \<and> hasLength st = (Type_Length \<in> set (types st)))"

lemma consistent_initial: "consistent initial"
  by (simp add: consistent_def initial_def)

lemma same_String: "same J t Type_String = (t = Type_String)"
  by (cases t) auto

lemma same_Number: "same J t Type_Number = (t = Type_Number)"
  by (cases t) auto

lemma same_Length: "same J t Type_Length = (t = Type_Length)"
  by (cases t) auto

lemma same_StringLiteral: "same J t (Type_StringLiteral l) = isStringLiteral l t"
  by (cases t) auto

lemma same_NumericLiteral: "same J t (Type_NumericLiteral l) = isNumericLiteral J l t"
  by (cases t) auto

lemma same_DataType: "same J t (Type_DataType l) = isDataType l t"
  by (cases t) auto


lemma list_all_not_ex: "list_all (\<lambda>t. \<not> P t) xs = (\<not> list_ex P xs)"
  by (induction xs) auto

lemma types_add:
  "consistent st \<Longrightarrow> types (add J st d) = insert_new J (types st) d"
  by (cases d)
     (auto simp: consistent_def insert_new_def addString_def addNumber_def addLength_def
        addStringLiteral_def addNumericLiteral_def addDataType_def list_all_not_ex
        same_String same_Number same_Length same_StringLiteral same_NumericLiteral same_DataType
        list_ex_iff)

lemma consistent_add: "consistent st \<Longrightarrow> consistent (add J st d)"
  by (cases d)
     (auto simp: consistent_def addString_def addNumber_def addLength_def
        addStringLiteral_def addNumericLiteral_def addDataType_def)

lemma consistent_foldl_add: "consistent st \<Longrightarrow> consistent (foldl (add J) st ds)"
  by (induction ds arbitrary: st) (auto simp: consistent_add)

lemma types_foldl_add:
  "consistent st \<Longrightarrow> types (foldl (add J) st ds) = foldl (insert_new J) (types st) ds"
  by (induction ds arbitrary: st) (auto simp: consistent_add types_add)

lemma groupIsRepeated_spec: "groupIsRepeated m = spec_group_adds_string m"
  by (cases m rule: spec_group_adds_string.cases) (auto simp: groupIsRepeated_def)



text \<open>Every run of the loop body adds the descriptors its entity triggers, in order.\<close>

lemma typing_step_triggered:
  "typing_step J catalog entities st e = foldl (add J) st (triggered J catalog entities e)"
proof (cases e)
  case (Keyword r v m)
  then show ?thesis by (simp add: typeKeyword_def)
next
  case (DataType r v m)
  then show ?thesis
    by (simp add: typeDataType_def Let_def split: option.splits)
next
  case (Group r nested m)
  then show ?thesis by (simp add: groupIsRepeated_spec)
next
  case (CombinatorEntity r c)
  then show ?thesis by (cases c) simp_all
next
  case (FunctionEntity r)
  then show ?thesis by simp
qed

lemma consistent_typing_step: "consistent st \<Longrightarrow> consistent (typing_step J catalog entities st e)"
  by (simp add: typing_step_triggered consistent_foldl_add)

lemma foldl_typing_step:
  "foldl (typing_step J catalog entities) st es =
     foldl (add J) st (concat (map (triggered J catalog entities) es))"
  by (induction es arbitrary: st) (simp_all add: typing_step_triggered)

lemma typing_first_occurrences:
  "typing J catalog entities =
     first_occurrences J (concat (map (triggered J catalog entities) entities))"
proof -
  have "types (initial :: 'a accumulator) = []" by (simp add: initial_def)
  then show ?thesis
    by (simp add: typing.simps foldl_typing_step types_foldl_add consistent_initial
        first_occurrences_def)
qed

section \<open>Neighbours by position\<close>






section \<open>The inclusion filter\<close>




section \<open>The rules of the loop body\<close>

text \<open>In a sequence of one entity the entity has no neighbour, and is included.\<close>

lemma shouldIncludeComponent_singleton: "shouldIncludeComponent [e] e"
  by (simp add: shouldIncludeComponent_def nextEntity_def previousEntity_def at_index_def)

lemma typing_singleton:
  "typing J catalog [e] = first_occurrences J (triggered J catalog [e] e)"
  by (simp add: typing_first_occurrences)

text \<open>
  Claim C2. For every included group component the loop body adds the generic string
  exactly when the group's multiplier is a \<open>QurlyBracet\<close> with \<open>min > 1\<close> or \<open>max = 1\<close>,
  or is \<open>Asterisk\<close>, \<open>PlusSign\<close>, \<open>HashMark\<close> or \<open>ExclamationPoint\<close> (not for
  \<open>QuestionMark\<close>, other ranges or no multiplier), and afterwards passes every descriptor
  of the typing of the nested sequence, in order, to \<open>add\<close>: on an accumulator whose flags
  are right, the resulting list is the outer list with each of these descriptors
  inserted unless present.
\<close>

theorem group_component_rule:
  "shouldIncludeComponent entities (Group r nested m) \<Longrightarrow>
   typing_step J catalog entities st (Group r nested m) =
     foldl (add J) (if spec_group_adds_string m then addString st else st)
       (typing J catalog nested)
   \<and> (consistent st \<longrightarrow>
        types (typing_step J catalog entities st (Group r nested m)) =
          foldl (insert_new J)
            (if spec_group_adds_string m then insert_new J (types st) Type_String else types st)
            (typing J catalog nested))"
proof -
  assume inc: "shouldIncludeComponent entities (Group r nested m)"
  have step: "typing_step J catalog entities st (Group r nested m) =
     foldl (add J) (if spec_group_adds_string m then addString st else st)
       (typing J catalog nested)"
    using inc by (simp add: groupIsRepeated_spec)
  have merged: "types (typing_step J catalog entities st (Group r nested m)) =
          foldl (insert_new J)
            (if spec_group_adds_string m then insert_new J (types st) Type_String else types st)
            (typing J catalog nested)" if c: "consistent st"
  proof -
    have "consistent (add J st Type_String)" using c by (rule consistent_add)
    then have "consistent (if spec_group_adds_string m then addString st else st)"
      using c by simp
    then have "types (foldl (add J) (if spec_group_adds_string m then addString st else st)
        (typing J catalog nested)) =
      foldl (insert_new J) (types (if spec_group_adds_string m then addString st else st))
        (typing J catalog nested)"
      by (rule types_foldl_add)
    moreover have "types (addString st) = insert_new J (types st) Type_String"
      using types_add [OF c, of J Type_String] by simp
    ultimately show ?thesis unfolding step by (simp split: if_splits)
  qed
  from step merged show ?thesis by blast
qed

text \<open>The group \<open>[ a ]*\<close> alone in a sequence: the generic string of the multiplier,
  then the literal of the nested keyword.\<close>

theorem group_component_rule_witness:
  "shouldIncludeComponent [Group 1 [Keyword 2 ''a'' None] (Some Asterisk)]
     (Group 1 [Keyword 2 ''a'' None] (Some Asterisk))
   \<and> consistent (initial :: jsnum accumulator)
   \<and> types (typing_step js_model Map.empty [Group 1 [Keyword 2 ''a'' None] (Some Asterisk)]
        initial (Group 1 [Keyword 2 ''a'' None] (Some Asterisk)))
      = [Type_String, Type_StringLiteral ''a'']
   \<and> typing js_model Map.empty [Group 1 [Keyword 2 ''a'' None] (Some Asterisk)]
      = [Type_String, Type_StringLiteral ''a'']"
proof -
  let ?G = "Group 1 [Keyword 2 ''a'' None] (Some Asterisk)"
  have inc: "shouldIncludeComponent [?G] ?G" by (rule shouldIncludeComponent_singleton)
  have c: "consistent (initial :: jsnum accumulator)" by (rule consistent_initial)
  have n: "typing js_model Map.empty [Keyword 2 ''a'' None] = [Type_StringLiteral ''a'']"
    by code_simp
  have t: "types (initial :: jsnum accumulator) = []" by (simp add: initial_def)
  have "types (typing_step js_model Map.empty [?G] initial ?G) =
      foldl (insert_new js_model)
        (if spec_group_adds_string (Some Asterisk)
         then insert_new js_model (types (initial :: jsnum accumulator)) Type_String
         else types (initial :: jsnum accumulator))
        (typing js_model Map.empty [Keyword 2 ''a'' None])"
    using group_component_rule [OF inc, of js_model Map.empty initial] c by blast
  also have "\<dots> = [Type_String, Type_StringLiteral ''a'']"
    by (simp add: n t insert_new_def)
  finally have "types (typing_step js_model Map.empty [?G] initial ?G) =
      [Type_String, Type_StringLiteral ''a'']" .
  moreover have "typing js_model Map.empty [?G] = [Type_String, Type_StringLiteral ''a'']"
    by code_simp
  ultimately show ?thesis using inc c by simp
qed

text \<open>
  Claim C3. The loop body adds the generic string (through \<open>addString\<close>, so at most
  once) for a combinator entity exactly when the combinator is \<open>DoubleBar\<close>,
  \<open>Juxtaposition\<close> or \<open>DoubleAmpersand\<close>; for \<open>SingleBar\<close> it leaves the accumulator as
  it is; and the typing of \<open>auto || none\<close> is the literal \<open>auto\<close>, the generic string,
  the literal \<open>none\<close>.
\<close>

theorem combinator_rule:
  "typing_step J catalog entities st (CombinatorEntity r c) =
     (if c = DoubleBar \<or> c = Juxtaposition \<or> c = DoubleAmpersand then addString st else st)
   \<and> typing_step J catalog entities st (CombinatorEntity r SingleBar) = st
   \<and> typing js_model catalog
       [Keyword 1 ''auto'' None, CombinatorEntity 2 DoubleBar, Keyword 3 ''none'' None]
     = [Type_StringLiteral ''auto'', Type_String, Type_StringLiteral ''none'']"
proof -
  have "typing js_model catalog
       [Keyword 1 ''auto'' None, CombinatorEntity 2 DoubleBar, Keyword 3 ''none'' None]
     = [Type_StringLiteral ''auto'', Type_String, Type_StringLiteral ''none'']"
    by code_simp
  then show ?thesis by (cases c) simp_all
qed

text \<open>
  Claim C4. For every included keyword component the loop body adds the numeric literal
  \<open>Number(text)\<close> when \<open>String(Number(text))\<close> is the text, and the string literal of
  the text otherwise; a sequence of one keyword is typed as that one literal; the typing
  of the keyword \<open>0\<close> is the numeric literal 0 and the typing of the keyword \<open>auto\<close> is
  the string literal \<open>auto\<close>.
\<close>

theorem keyword_rule:
  "shouldIncludeComponent entities (Keyword r text m) \<Longrightarrow>
   typing_step J catalog entities st (Keyword r text m) =
     (if js_String J (js_Number J text) = text
      then addNumericLiteral J (js_Number J text) st
      else addStringLiteral text st)
   \<and> typing J catalog [Keyword r text m] =
       [if js_String J (js_Number J text) = text
        then Type_NumericLiteral (js_Number J text)
        else Type_StringLiteral text]
   \<and> typing js_model catalog [Keyword r ''0'' m] = [Type_NumericLiteral (Finite 0)]
   \<and> typing js_model catalog [Keyword r ''auto'' m] = [Type_StringLiteral ''auto'']"
proof -
  assume inc: "shouldIncludeComponent entities (Keyword r text m)"
  have single: "typing J' catalog [Keyword r t m] =
       [if js_String J' (js_Number J' t) = t
        then Type_NumericLiteral (js_Number J' t)
        else Type_StringLiteral t]" for J' :: "'b js_number" and t
    by (simp add: typing_singleton shouldIncludeComponent_singleton first_occurrences_def
        insert_new_def)
  have zero: "js_String js_model (js_Number js_model ''0'') = ''0''"
    and zero_val: "js_Number js_model ''0'' = Finite 0"
    and auto: "js_String js_model (js_Number js_model ''auto'') \<noteq> ''auto''"
    by code_simp+
  show ?thesis
    using inc single [of J "text"] single [of js_model "''0''"] single [of js_model "''auto''"]
      zero zero_val auto
    by (simp add: typeKeyword_def)
qed

text \<open>The keyword \<open>12\<close> alone in a sequence.\<close>

theorem keyword_rule_witness:
  "shouldIncludeComponent [Keyword 7 ''12'' None] (Keyword 7 ''12'' None)
   \<and> typing_step js_model Map.empty [Keyword 7 ''12'' None] initial (Keyword 7 ''12'' None)
      = addNumericLiteral js_model (Finite 12) initial
   \<and> typing js_model Map.empty [Keyword 7 ''12'' None] = [Type_NumericLiteral (Finite 12)]"
proof -
  have inc: "shouldIncludeComponent [Keyword 7 ''12'' None] (Keyword 7 ''12'' None)"
    by (rule shouldIncludeComponent_singleton)
  have v: "js_Number js_model ''12'' = Finite 12"
    and s: "js_String js_model (Finite 12) = ''12''"
    by code_simp+
  have "typing_step js_model Map.empty [Keyword 7 ''12'' None] initial (Keyword 7 ''12'' None)
      = addNumericLiteral js_model (Finite 12) initial
    \<and> typing js_model Map.empty [Keyword 7 ''12'' None] = [Type_NumericLiteral (Finite 12)]"
    using keyword_rule [OF inc, of js_model Map.empty initial] unfolding v s by simp
  with inc show ?thesis by blast
qed

section \<open>Components the filter leaves out\<close>

text \<open>
  The filter reads of an entity its reference, its multiplier and which kind of entity
  it is. Two entities that agree on these are alike; the filter gives the same answer on
  sequences whose entries are alike position by position.
\<close>

definition alike :: "EntityType \<Rightarrow> EntityType \<Rightarrow> bool" where
  "alike a b =
     (ref a = ref b \<and> multiplier a = multiplier b \<and> isComponent a = isComponent b
      \<and> isCombinator a = isCombinator b
      \<and> isMandatoryCombinator a = isMandatoryCombinator b)"

lemma alike_refl: "alike a a"
  by (simp add: alike_def)

lemma list_all2_alike_refl: "list_all2 alike xs xs"
  by (simp add: list_all2_refl alike_refl)

lemma indexOf_alike:
  "list_all2 alike xs ys \<Longrightarrow> alike x y \<Longrightarrow> indexOf xs x = indexOf ys y"
  by (induction xs ys rule: list_all2_induct) (auto simp: alike_def Let_def)

lemma at_index_alike:
  "list_all2 alike xs ys \<Longrightarrow> rel_option alike (at_index xs k) (at_index ys k)"
  by (auto simp: at_index_def list_all2_lengthD list_all2_nthD)

lemma mandatoryCombinatorAt_alike:
  "rel_option alike a b \<Longrightarrow> rel_option alike (mandatoryCombinatorAt a) (mandatoryCombinatorAt b)"
  by (cases a; cases b) (auto simp: alike_def)

lemma optional_alike:
  "rel_option alike a b \<Longrightarrow>
   (case a of None \<Rightarrow> False | Some c \<Rightarrow> isComponent c \<and> isOptionalComponent c) =
   (case b of None \<Rightarrow> False | Some c \<Rightarrow> isComponent c \<and> isOptionalComponent c)"
  by (cases a; cases b) (auto simp: alike_def isOptionalComponent_def)

lemma nextComponentIsOptional_alike:
  "list_all2 alike xs ys \<Longrightarrow> alike c d \<Longrightarrow>
   nextComponentIsOptional xs c = nextComponentIsOptional ys d"
  unfolding nextComponentIsOptional_def nextEntity_def
  by (intro optional_alike) (simp add: indexOf_alike at_index_alike)

lemma previousComponentWasOptional_alike:
  "list_all2 alike xs ys \<Longrightarrow> alike c d \<Longrightarrow>
   previousComponentWasOptional xs c = previousComponentWasOptional ys d"
  unfolding previousComponentWasOptional_def previousEntity_def
  by (intro optional_alike) (simp add: indexOf_alike at_index_alike)

lemma shouldIncludeComponent_alike:
  assumes l: "list_all2 alike xs ys" and a: "alike x y"
  shows "shouldIncludeComponent xs x = shouldIncludeComponent ys y"
proof -
  have n: "rel_option alike (mandatoryCombinatorAt (nextEntity xs x))
      (mandatoryCombinatorAt (nextEntity ys y))"
    unfolding nextEntity_def using l a
    by (intro mandatoryCombinatorAt_alike) (simp add: indexOf_alike at_index_alike)
  have p: "rel_option alike (mandatoryCombinatorAt (previousEntity xs x))
      (mandatoryCombinatorAt (previousEntity ys y))"
    unfolding previousEntity_def using l a
    by (intro mandatoryCombinatorAt_alike) (simp add: indexOf_alike at_index_alike)
  show ?thesis
    unfolding shouldIncludeComponent_def using n p l
    by (auto simp: option.rel_sel nextComponentIsOptional_alike
        previousComponentWasOptional_alike split: option.splits)
qed

lemma typing_step_context:
  "shouldIncludeComponent xs e = shouldIncludeComponent ys e \<Longrightarrow>
   typing_step J catalog xs st e = typing_step J catalog ys st e"
  by (cases e) simp_all

lemma foldl_typing_step_context:
  "list_all2 alike xs ys \<Longrightarrow>
   foldl (typing_step J catalog xs) st es = foldl (typing_step J catalog ys) st es"
proof (induction es arbitrary: st)
  case Nil
  show ?case by simp
next
  case (Cons e es)
  have "typing_step J catalog xs st e = typing_step J catalog ys st e"
    using Cons.prems by (intro typing_step_context shouldIncludeComponent_alike alike_refl)
  then show ?case using Cons by simp
qed

text \<open>
  Claim C10. A group component for which the filter of the source returns false
  contributes nothing: the loop body leaves the accumulator as it is (neither the generic
  string of its multiplier nor a descriptor of its nested sequence is added), the typing
  of the sequence is the loop run over the other entities, and the typing does not depend
  on the nested sequence of that group.
\<close>

theorem excluded_group_contributes_nothing:
  "\<not> shouldIncludeComponent entities (Group r nested m) \<Longrightarrow>
   typing_step J catalog entities st (Group r nested m) = st
   \<and> (entities = before @ Group r nested m # after \<longrightarrow>
        typing J catalog entities =
          types (foldl (typing_step J catalog entities) initial (before @ after))
        \<and> typing J catalog (before @ Group r nested' m # after) = typing J catalog entities)"
proof -
  assume ex: "\<not> shouldIncludeComponent entities (Group r nested m)"
  have step: "typing_step J catalog entities st' (Group r nested m) = st'" for st'
    using ex by simp
  have rest: "typing J catalog entities =
          types (foldl (typing_step J catalog entities) initial (before @ after))
        \<and> typing J catalog (before @ Group r nested' m # after) = typing J catalog entities"
    if e: "entities = before @ Group r nested m # after"
  proof -
    let ?E' = "before @ Group r nested' m # after"
    have skip: "typing J catalog entities =
          types (foldl (typing_step J catalog entities) initial (before @ after))"
    proof -
      have "foldl (typing_step J catalog entities) initial entities =
          foldl (typing_step J catalog entities) initial (before @ Group r nested m # after)"
        by (simp only: e [symmetric])
      also have "\<dots> = foldl (typing_step J catalog entities) initial (before @ after)"
        by (simp add: step del: typing_step.simps)
      finally show ?thesis by (simp only: typing.simps)
    qed
    have g: "alike (Group r nested' m) (Group r nested m)" by (simp add: alike_def)
    have l: "list_all2 alike ?E' entities"
      unfolding e by (simp add: list_all2_appendI list_all2_alike_refl g)
    have "shouldIncludeComponent ?E' (Group r nested' m) =
        shouldIncludeComponent entities (Group r nested m)"
      using l g by (rule shouldIncludeComponent_alike)
    then have step': "typing_step J catalog ?E' st' (Group r nested' m) = st'" for st'
      using ex by simp
    have "typing J catalog ?E' = types (foldl (typing_step J catalog ?E') initial (before @ after))"
      by (subst typing.simps) (simp add: step' del: typing_step.simps)
    also have "\<dots> = types (foldl (typing_step J catalog entities) initial (before @ after))"
      using l by (simp only: foldl_typing_step_context)
    finally show ?thesis using skip by simp
  qed
  from step rest show ?thesis by blast
qed

text \<open>
  The sequence \<open>[ a ]* b\<close>: the group is followed by a juxtaposition whose next
  component \<open>b\<close> has no multiplier, so the group is left out; neither the generic string
  of \<open>*\<close> nor the literal \<open>a\<close> is added (the generic string in the result is the one of
  the juxtaposition), and a function inside the group would change nothing.
\<close>

theorem excluded_group_contributes_nothing_witness:
  "\<not> shouldIncludeComponent
      [Group 1 [Keyword 2 ''a'' None] (Some Asterisk), CombinatorEntity 3 Juxtaposition,
       Keyword 4 ''b'' None]
      (Group 1 [Keyword 2 ''a'' None] (Some Asterisk))
   \<and> typing js_model Map.empty
      [Group 1 [Keyword 2 ''a'' None] (Some Asterisk), CombinatorEntity 3 Juxtaposition,
       Keyword 4 ''b'' None]
     = types (foldl (typing_step js_model Map.empty
         [Group 1 [Keyword 2 ''a'' None] (Some Asterisk), CombinatorEntity 3 Juxtaposition,
          Keyword 4 ''b'' None]) initial
         [CombinatorEntity 3 Juxtaposition, Keyword 4 ''b'' None])
   \<and> typing js_model Map.empty
      [Group 1 [Keyword 2 ''a'' None] (Some Asterisk), CombinatorEntity 3 Juxtaposition,
       Keyword 4 ''b'' None]
     = [Type_String, Type_StringLiteral ''b'']
   \<and> typing js_model Map.empty
      [Group 1 [FunctionEntity 5] (Some Asterisk), CombinatorEntity 3 Juxtaposition,
       Keyword 4 ''b'' None]
     = [Type_String, Type_StringLiteral ''b'']"
proof -
  let ?G = "Group 1 [Keyword 2 ''a'' None] (Some Asterisk)"
  let ?E = "[?G, CombinatorEntity 3 Juxtaposition, Keyword 4 ''b'' None]"
  have ex: "\<not> shouldIncludeComponent ?E ?G" by code_simp
  have e: "?E = [] @ ?G # [CombinatorEntity 3 Juxtaposition, Keyword 4 ''b'' None]" by simp
  have v: "typing js_model Map.empty ?E = [Type_String, Type_StringLiteral ''b'']"
    by code_simp
  from excluded_group_contributes_nothing [OF ex, of js_model Map.empty initial "[]"
      "[CombinatorEntity 3 Juxtaposition, Keyword 4 ''b'' None]" "[FunctionEntity 5]"] e
  have "typing js_model Map.empty ?E =
      types (foldl (typing_step js_model Map.empty ?E) initial
        ([] @ [CombinatorEntity 3 Juxtaposition, Keyword 4 ''b'' None]))
    \<and> typing js_model Map.empty
        ([] @ Group 1 [FunctionEntity 5] (Some Asterisk) #
          [CombinatorEntity 3 Juxtaposition, Keyword 4 ''b'' None]) =
      typing js_model Map.empty ?E"
    by blast
  with ex v show ?thesis by simp
qed

section \<open>The catalog\<close>

text \<open>The entry the loop gives one key.\<close>

definition spec_catalog_entry :: "(string \<Rightarrow> bool) \<Rightarrow> string \<Rightarrow> IBasic option" where
  "spec_catalog_entry in_syntaxes name =
     (if name = ''number'' \<or> name = ''integer'' then Some Basic_Number
      else if name = ''length'' then Some Basic_Length
      else if in_syntaxes name then None
      else Some Basic_String)"

lemma basicDataTypes_step_entry:
  "basicDataTypes_step in_syntaxes dataTypes name =
     (case spec_catalog_entry in_syntaxes name of
        Some b \<Rightarrow> dataTypes(name \<mapsto> b) | None \<Rightarrow> dataTypes)"
  by (simp add: basicDataTypes_step_def spec_catalog_entry_def)

lemma foldl_basicDataTypes_step:
  "foldl (basicDataTypes_step in_syntaxes) dataTypes names name =
     (if name \<in> set names
      then (case spec_catalog_entry in_syntaxes name of Some b \<Rightarrow> Some b | None \<Rightarrow> dataTypes name)
      else dataTypes name)"
proof (induction names arbitrary: dataTypes)
  case Nil
  show ?case by simp
next
  case (Cons k ks)
  let ?m = "basicDataTypes_step in_syntaxes dataTypes k"
  have "foldl (basicDataTypes_step in_syntaxes) dataTypes (k # ks) name =
      foldl (basicDataTypes_step in_syntaxes) ?m ks name"
    by simp
  also have "\<dots> =
     (if name \<in> set ks
      then (case spec_catalog_entry in_syntaxes name of Some b \<Rightarrow> Some b | None \<Rightarrow> ?m name)
      else ?m name)"
    by (rule Cons.IH)
  also have "\<dots> =
     (if name \<in> set (k # ks)
      then (case spec_catalog_entry in_syntaxes name of
              Some b \<Rightarrow> Some b | None \<Rightarrow> dataTypes name)
      else dataTypes name)"
    by (simp add: basicDataTypes_step_entry split: option.splits)
  finally show ?case .
qed

text \<open>
  Claim C8, as amended. The catalog has an entry only for a key of the types table or
  for \<open>hex-color\<close>; such a name maps to \<open>Number\<close> when it is \<open>number\<close> or \<open>integer\<close>, to
  \<open>Length\<close> when it is \<open>length\<close>, has no entry when it is another name defined in the
  syntaxes table, and maps to \<open>String\<close> otherwise; \<open>hex-color\<close> maps to \<open>String\<close>
  when the syntaxes table does not define it.
\<close>

theorem catalog_entries:
  "basicDataTypes cssTypes_keys in_syntaxes name =
     (if name \<in> set cssTypes_keys \<or> name = ''hex-color''
      then (if name = ''number'' \<or> name = ''integer'' then Some Basic_Number
            else if name = ''length'' then Some Basic_Length
            else if in_syntaxes name then None
            else Some Basic_String)
      else None)
   \<and> (\<not> in_syntaxes ''hex-color'' \<longrightarrow>
        basicDataTypes cssTypes_keys in_syntaxes ''hex-color'' = Some Basic_String)"
proof -
  have "basicDataTypes cssTypes_keys in_syntaxes n =
     (if n \<in> set cssTypes_keys \<or> n = ''hex-color''
      then spec_catalog_entry in_syntaxes n else None)" for n
    unfolding basicDataTypes_def foldl_basicDataTypes_step
    by (auto split: option.splits)
  then show ?thesis by (simp add: spec_catalog_entry_def)
qed

text \<open>With a syntaxes table that defines \<open>color\<close> only.\<close>

theorem catalog_entries_witness:
  "\<not> defined_in [''color''] ''hex-color''
   \<and> basicDataTypes example_cssTypes_keys (defined_in [''color'']) ''hex-color''
       = Some Basic_String
   \<and> basicDataTypes example_cssTypes_keys (defined_in [''color'']) ''color'' = None
   \<and> basicDataTypes example_cssTypes_keys (defined_in [''color'']) ''integer''
       = Some Basic_Number
   \<and> basicDataTypes example_cssTypes_keys (defined_in [''color'']) ''length''
       = Some Basic_Length
   \<and> basicDataTypes example_cssTypes_keys (defined_in [''color'']) ''string''
       = Some Basic_String
   \<and> basicDataTypes example_cssTypes_keys (defined_in [''color'']) ''angle'' = None"
  using catalog_entries [of example_cssTypes_keys "defined_in [''color'']" "''hex-color''"]
    catalog_entries [of example_cssTypes_keys "defined_in [''color'']" "''color''"]
    catalog_entries [of example_cssTypes_keys "defined_in [''color'']" "''integer''"]
    catalog_entries [of example_cssTypes_keys "defined_in [''color'']" "''length''"]
    catalog_entries [of example_cssTypes_keys "defined_in [''color'']" "''string''"]
    catalog_entries [of example_cssTypes_keys "defined_in [''color'']" "''angle''"]
  by (simp add: defined_in_def example_cssTypes_keys_def)

text \<open>
  The claim as stated fails for a syntaxes table that defines \<open>hex-color\<close>: the
  \<open>default\<close> branch is guarded by \<open>!(name in syntaxes)\<close>, and the catalog gets no entry
  for \<open>hex-color\<close>.
\<close>

theorem catalog_hex_color_counterexample:
  "defined_in [''color'', ''hex-color''] ''hex-color''
   \<and> basicDataTypes example_cssTypes_keys (defined_in [''color'', ''hex-color''])
        ''hex-color'' = None"
  by (simp add: basicDataTypes_def basicDataTypes_step_def example_cssTypes_keys_def
      defined_in_def)

section \<open>Data type components\<close>

text \<open>
  For a name that is not a property of \<open>Object.prototype\<close> the branch of a data type
  component is the three-way rule: the generic string for a name that starts with a
  quote, the catalog's descriptor for a key of the catalog, a reference to the data type
  otherwise.
\<close>

lemma typeDataType_own_names:
  "slice_1_minus_1 text \<notin> set Object_prototype_keys \<Longrightarrow>
   typeDataType J catalog text st =
     (if string_indexOf (slice_1_minus_1 text) (CHR 0x27) = 0 then addString st
      else case catalog (slice_1_minus_1 text) of
             Some b \<Rightarrow> add J st (basic b)
           | None \<Rightarrow> addDataType (slice_1_minus_1 text) st)"
  by (simp add: typeDataType_def js_in_def Let_def split: option.splits)

lemma string_indexOf_0: "(string_indexOf s c = 0) = (\<exists>t. s = c # t)"
  by (cases s) (auto simp: Let_def)

text \<open>
  Claim C5 fails on the source for a data type named after an inherited property. The
  name \<open>toString\<close> does not start with a quote and is no key of the catalog, so the
  claim gives the reference \<open>DataType{toString}\<close>; but \<open>'toString' in basicDataTypes\<close>
  is true, \<open>add\<close> receives the inherited function, and nothing is added.
\<close>

theorem datatype_inherited_name:
  "typing js_model (basicDataTypes example_cssTypes_keys (defined_in [''color'']))
     [DataType 1 ''<toString>'' None] = []
   \<and> basicDataTypes example_cssTypes_keys (defined_in [''color'']) ''toString'' = None
   \<and> js_in ''toString'' (basicDataTypes example_cssTypes_keys (defined_in [''color'']))
   \<and> typing js_model (basicDataTypes example_cssTypes_keys (defined_in [''color'']))
     [DataType 1 ''<color>'' None] = [Type_DataType ''color'']"
  by code_simp

section \<open>Deduplication\<close>

text \<open>
  The test of the source for "already present" is \<open>same\<close>: equal variants and equal
  fields, numbers compared with \<open>===\<close>. When \<open>===\<close> holds of every number and itself,
  the output of typing has no descriptor twice.
\<close>

lemma same_reflexive: "(\<And>n. js_strict_eq J n n) \<Longrightarrow> same J d d"
  by (cases d) simp_all

lemma same_variant_and_field:
  "same J a b = (case (a, b) of
      (Type_NumericLiteral x, Type_NumericLiteral y) \<Rightarrow> js_strict_eq J x y
    | _ \<Rightarrow> a = b)"
  by (cases a; cases b) simp_all

lemma distinct_insert_new:
  assumes r: "\<And>n. js_strict_eq J n n" and d: "distinct ds"
  shows "distinct (insert_new J ds x)"
proof (cases "list_ex (\<lambda>t. same J t x) ds")
  case True
  then show ?thesis using d by (simp add: insert_new_def)
next
  case False
  have "x \<notin> set ds"
  proof
    assume "x \<in> set ds"
    moreover have "same J x x" using r by (rule same_reflexive)
    ultimately show False using False by (auto simp: list_ex_iff)
  qed
  then show ?thesis using d False by (simp add: insert_new_def)
qed

lemma distinct_foldl_insert_new:
  "(\<And>n. js_strict_eq J n n) \<Longrightarrow> distinct ds \<Longrightarrow> distinct (foldl (insert_new J) ds xs)"
  by (induction xs arbitrary: ds) (simp_all add: distinct_insert_new)

lemma typing_distinct_when_reflexive:
  "(\<And>n. js_strict_eq J n n) \<Longrightarrow> distinct (typing J catalog entities)"
  by (simp add: typing_first_occurrences first_occurrences_def distinct_foldl_insert_new)

text \<open>Whatever \<open>===\<close> is: an entry is never the same, for the test of the source, as an
  earlier entry.\<close>

definition no_later_same :: "'n js_number \<Rightarrow> 'n TypeType list \<Rightarrow> bool" where
  "no_later_same J ds =
     (\<forall>j < length ds. \<forall>i < j. \<not> same J (ds ! i) (ds ! j))"

lemma no_later_same_insert_new:
  assumes "no_later_same J ds"
  shows "no_later_same J (insert_new J ds x)"
proof (cases "list_ex (\<lambda>t. same J t x) ds")
  case True
  then show ?thesis using assms by (simp add: insert_new_def)
next
  case False
  then have n: "\<And>i. i < length ds \<Longrightarrow> \<not> same J (ds ! i) x"
    by (auto simp: list_ex_iff)
  show ?thesis
    unfolding no_later_same_def
  proof (intro allI impI)
    fix j i
    assume j: "j < length (insert_new J ds x)" and i: "i < j"
    show "\<not> same J (insert_new J ds x ! i) (insert_new J ds x ! j)"
    proof (cases "j < length ds")
      case True
      then show ?thesis using assms i False
        by (simp add: insert_new_def no_later_same_def nth_append)
    next
      case f: False
      then have "j = length ds" using j False by (simp add: insert_new_def)
      then show ?thesis using i n False by (simp add: insert_new_def nth_append)
    qed
  qed
qed

lemma no_later_same_foldl:
  "no_later_same J ds \<Longrightarrow> no_later_same J (foldl (insert_new J) ds xs)"
  by (induction xs arbitrary: ds) (simp_all add: no_later_same_insert_new)

lemma typing_no_later_same: "no_later_same J (typing J catalog entities)"
proof -
  have "no_later_same J []" by (simp add: no_later_same_def)
  then show ?thesis
    by (simp add: typing_first_occurrences first_occurrences_def no_later_same_foldl)
qed

text \<open>
  Claim C6 fails on the source for the keyword \<open>NaN\<close>: \<open>String(Number("NaN"))\<close> is
  \<open>"NaN"\<close>, so the keyword is a numeric literal, and \<open>NaN === NaN\<close> is false, so the
  test of \<open>addNumericLiteral\<close> never finds it. The typing of \<open>NaN | NaN\<close> has the same
  numeric literal twice.
\<close>

theorem duplicate_NaN_literal:
  "typing js_model (basicDataTypes example_cssTypes_keys (defined_in [''color'']))
     [Keyword 1 ''NaN'' None, CombinatorEntity 2 SingleBar, Keyword 3 ''NaN'' None]
     = [Type_NumericLiteral NaN, Type_NumericLiteral NaN]
   \<and> \<not> distinct (typing js_model (basicDataTypes example_cssTypes_keys (defined_in [''color'']))
       [Keyword 1 ''NaN'' None, CombinatorEntity 2 SingleBar, Keyword 3 ''NaN'' None])
   \<and> js_String js_model (js_Number js_model ''NaN'') = ''NaN''
   \<and> js_strict_eq js_model (js_Number js_model ''NaN'') (js_Number js_model ''NaN'') = False"
  by code_simp

section \<open>Order of the output\<close>

text \<open>
  When \<open>===\<close> is equality, the first occurrences of a sequence are the sequence without
  its repetitions, each descriptor staying where it first stands.
\<close>

lemma first_occurrences_remdups_aux:
  assumes eq: "\<And>a b. js_strict_eq J a b = (a = b)"
  shows "foldl (insert_new J) acc ds = acc @ rev (remdups (rev (filter (\<lambda>d. d \<notin> set acc) ds)))"
proof (induction ds rule: rev_induct)
  case Nil
  show ?case by simp
next
  case (snoc x xs)
  have s: "same J a b = (a = b)" for a b
    by (cases a; cases b) (simp_all add: eq)
  have ins: "insert_new J ys x = (if x \<in> set ys then ys else ys @ [x])" for ys
    by (auto simp: insert_new_def list_ex_iff s)
  show ?case
    by (simp add: snoc.IH ins)
qed

lemma first_occurrences_remdups:
  "(\<And>a b. js_strict_eq J a b = (a = b)) \<Longrightarrow> first_occurrences J ds = rev (remdups (rev ds))"
  using first_occurrences_remdups_aux [of J "[]" ds] by (simp add: first_occurrences_def)






section \<open>Totality\<close>

text \<open>A descriptor that is the same as itself and occurs in the triggered sequence, or
  was present before, is present in the end.\<close>

lemma present_after_foldl:
  "same J d d \<Longrightarrow> list_ex (\<lambda>t. same J t d) acc \<or> d \<in> set ds \<Longrightarrow>
   list_ex (\<lambda>t. same J t d) (foldl (insert_new J) acc ds)"
proof (induction ds arbitrary: acc)
  case Nil
  then show ?case by simp
next
  case (Cons x xs)
  have "list_ex (\<lambda>t. same J t d) (insert_new J acc x) \<or> d \<in> set xs"
    using Cons.prems by (auto simp: insert_new_def list_ex_iff)
  then show ?case using Cons.IH Cons.prems(1) by simp
qed

lemma string_triggered_in_typing:
  assumes e: "e \<in> set entities" and t: "Type_String \<in> set (triggered J catalog entities e)"
  shows "Type_String \<in> set (typing J catalog entities)"
proof -
  have "Type_String \<in> set (concat (map (triggered J catalog entities) entities))"
    using e t by auto
  then have "list_ex (\<lambda>t. same J t Type_String)
      (foldl (insert_new J) [] (concat (map (triggered J catalog entities) entities)))"
    by (intro present_after_foldl) simp_all
  then show ?thesis
    by (simp add: typing_first_occurrences first_occurrences_def list_ex_iff same_String)
qed

lemma length_insert_new: "length (insert_new J ds d) \<le> Suc (length ds)"
  by (simp add: insert_new_def)

lemma length_foldl_insert_new: "length (foldl (insert_new J) acc ds) \<le> length acc + length ds"
proof (induction ds arbitrary: acc)
  case Nil
  show ?case by simp
next
  case (Cons x xs)
  have "length (foldl (insert_new J) (insert_new J acc x) xs) \<le> length (insert_new J acc x) + length xs"
    by (rule Cons.IH)
  also have "\<dots> \<le> Suc (length acc) + length xs"
    using length_insert_new [of J acc x] by simp
  finally show ?case by simp
qed

lemma length_concat_bound:
  "(\<And>x. x \<in> set xs \<Longrightarrow> length (f x) \<le> Suc (g x)) \<Longrightarrow>
   length (concat (map f xs)) \<le> size_list g xs"
proof (induction xs)
  case Nil
  show ?case by simp
next
  case (Cons a xs)
  have "length (f a) \<le> Suc (g a)" by (rule Cons.prems) simp
  moreover have "length (concat (map f xs)) \<le> size_list g xs"
    by (rule Cons.IH) (simp add: Cons.prems)
  ultimately show ?case by simp
qed

lemma length_typing_bound_aux:
  "(\<And>x. x \<in> set entities \<Longrightarrow> length (triggered J catalog entities x) \<le> Suc (size x)) \<Longrightarrow>
   length (typing J catalog entities) \<le> size_list size entities"
proof -
  assume a: "\<And>x. x \<in> set entities \<Longrightarrow> length (triggered J catalog entities x) \<le> Suc (size x)"
  have "length (typing J catalog entities) \<le>
      length (concat (map (triggered J catalog entities) entities))"
    using length_foldl_insert_new [of J "[]"]
    by (simp add: typing_first_occurrences first_occurrences_def)
  also have "\<dots> \<le> size_list size entities"
    using a by (rule length_concat_bound)
  finally show ?thesis .
qed

lemma length_triggered: "length (triggered J catalog ctx e) \<le> Suc (size e)"
proof (induction e arbitrary: ctx)
  case (Keyword r v m)
  show ?case by simp
next
  case (DataType r v m)
  show ?case by (simp add: Let_def split: option.splits)
next
  case (Group r nested m)
  have "length (typing J catalog nested) \<le> size_list size nested"
    using Group.IH by (intro length_typing_bound_aux) simp
  then show ?case by simp
next
  case (CombinatorEntity r c)
  show ?case by simp
next
  case (FunctionEntity r)
  show ?case by simp
qed

lemma length_typing_bound: "length (typing J catalog entities) \<le> size_list size entities"
  by (intro length_typing_bound_aux length_triggered)

text \<open>
  Claim C9. \<open>typing\<close> is a total function (its recursion, into the nested sequence of a
  group, was shown to terminate where it is defined): for every sequence it is the
  result of the loop, a list of at most as many descriptors as the tree has entities;
  there is no failing branch, and the shapes it does not model give the generic string:
  a function entity, a combinator other than \<open>SingleBar\<close>, an included data type whose
  name starts with a quote, an included group with a repeating multiplier.
\<close>

theorem typing_total:
  "typing J catalog entities = types (foldl (typing_step J catalog entities) initial entities)
   \<and> length (typing J catalog entities) \<le> size_list size entities
   \<and> (FunctionEntity rf \<in> set entities \<longrightarrow> Type_String \<in> set (typing J catalog entities))
   \<and> (CombinatorEntity rc c \<in> set entities \<and> c \<noteq> SingleBar \<longrightarrow>
        Type_String \<in> set (typing J catalog entities))
   \<and> (DataType rd text md \<in> set entities
        \<and> shouldIncludeComponent entities (DataType rd text md)
        \<and> string_indexOf (slice_1_minus_1 text) (CHR 0x27) = 0 \<longrightarrow>
        Type_String \<in> set (typing J catalog entities))
   \<and> (Group rg nested mg \<in> set entities
        \<and> shouldIncludeComponent entities (Group rg nested mg)
        \<and> spec_group_adds_string mg \<longrightarrow>
        Type_String \<in> set (typing J catalog entities))"
proof -
  have f: "Type_String \<in> set (typing J catalog entities)"
    if "FunctionEntity rf \<in> set entities"
    using that by (rule string_triggered_in_typing) simp
  have c: "Type_String \<in> set (typing J catalog entities)"
    if "CombinatorEntity rc c \<in> set entities" and "c \<noteq> SingleBar"
    using that by (intro string_triggered_in_typing [of "CombinatorEntity rc c"]) simp_all
  have d: "Type_String \<in> set (typing J catalog entities)"
    if "DataType rd text md \<in> set entities"
      and "shouldIncludeComponent entities (DataType rd text md)"
      and "string_indexOf (slice_1_minus_1 text) (CHR 0x27) = 0"
    using that by (intro string_triggered_in_typing [of "DataType rd text md"]) simp_all
  have g: "Type_String \<in> set (typing J catalog entities)"
    if "Group rg nested mg \<in> set entities"
      and "shouldIncludeComponent entities (Group rg nested mg)"
      and "spec_group_adds_string mg"
    using that by (intro string_triggered_in_typing [of "Group rg nested mg"]) simp_all
  show ?thesis
    using f c d g length_typing_bound [of J catalog entities] typing.simps [of J catalog entities]
    by blast
qed

text \<open>The sequence \<open>f() || <'x'> || [ a ]+\<close>.\<close>

definition example_unsupported :: "EntityType list" where
  "example_unsupported =
     [FunctionEntity 1, CombinatorEntity 2 DoubleBar,
      DataType 3 [CHR ''<'', CHR 0x27, CHR ''x'', CHR 0x27, CHR ''>''] None,
      CombinatorEntity 4 DoubleBar,
      Group 5 [Keyword 6 ''a'' None] (Some PlusSign)]"

theorem typing_total_witness:
  "FunctionEntity 1 \<in> set example_unsupported
   \<and> CombinatorEntity 2 DoubleBar \<in> set example_unsupported
   \<and> DoubleBar \<noteq> SingleBar
   \<and> DataType 3 [CHR ''<'', CHR 0x27, CHR ''x'', CHR 0x27, CHR ''>''] None
        \<in> set example_unsupported
   \<and> shouldIncludeComponent example_unsupported
        (DataType 3 [CHR ''<'', CHR 0x27, CHR ''x'', CHR 0x27, CHR ''>''] None)
   \<and> string_indexOf (slice_1_minus_1 [CHR ''<'', CHR 0x27, CHR ''x'', CHR 0x27, CHR ''>''])
        (CHR 0x27) = 0
   \<and> Group 5 [Keyword 6 ''a'' None] (Some PlusSign) \<in> set example_unsupported
   \<and> shouldIncludeComponent example_unsupported
        (Group 5 [Keyword 6 ''a'' None] (Some PlusSign))
   \<and> spec_group_adds_string (Some PlusSign)
   \<and> Type_String \<in> set (typing js_model Map.empty example_unsupported)
   \<and> length (typing js_model Map.empty example_unsupported)
        \<le> size_list size example_unsupported
   \<and> typing js_model Map.empty example_unsupported
        = [Type_String, Type_StringLiteral ''a'']"
proof -
  have f: "FunctionEntity 1 \<in> set example_unsupported"
    and c: "CombinatorEntity 2 DoubleBar \<in> set example_unsupported"
    and d: "DataType 3 [CHR ''<'', CHR 0x27, CHR ''x'', CHR 0x27, CHR ''>''] None
        \<in> set example_unsupported"
    and g: "Group 5 [Keyword 6 ''a'' None] (Some PlusSign) \<in> set example_unsupported"
    by (simp_all add: example_unsupported_def)
  have di: "shouldIncludeComponent example_unsupported
        (DataType 3 [CHR ''<'', CHR 0x27, CHR ''x'', CHR 0x27, CHR ''>''] None)"
    and gi: "shouldIncludeComponent example_unsupported
        (Group 5 [Keyword 6 ''a'' None] (Some PlusSign))"
    and q: "string_indexOf
        (slice_1_minus_1 [CHR ''<'', CHR 0x27, CHR ''x'', CHR 0x27, CHR ''>'']) (CHR 0x27) = 0"
    and v: "typing js_model Map.empty example_unsupported
        = [Type_String, Type_StringLiteral ''a'']"
    by code_simp+
  have "Type_String \<in> set (typing js_model Map.empty example_unsupported)
      \<and> length (typing js_model Map.empty example_unsupported)
        \<le> size_list size example_unsupported"
    using typing_total [of js_model Map.empty example_unsupported 1 2 DoubleBar 3
        "[CHR ''<'', CHR 0x27, CHR ''x'', CHR 0x27, CHR ''>'']" None 5
        "[Keyword 6 ''a'' None]" "Some PlusSign"] f c d di q g gi
    by blast
  then show ?thesis using f c d g di gi q v by simp
qed

end
